theory Spec2Isabelle
  imports Complex_Main
begin

section \<open>Conic projection of wireframe figures\<close>

text \<open>
  A shallow embedding of the figure renderer: the data model of \<^verbatim>\<open>pkg/types/types.go\<close>,
  the loader of \<^verbatim>\<open>internal/core/loader.go\<close>, the colour resolver of
  \<^verbatim>\<open>internal/renderer/config.go\<close> and the projector and draw pipeline of
  \<^verbatim>\<open>internal/renderer/renderer.go\<close>.

  Conventions of the embedding.
  \<^item> A Go \<^verbatim>\<open>float64\<close> is a \<^typ>\<open>real\<close>: arithmetic is exact, there is no rounding, no
    infinity and no NaN. Statements that involve a division are only meaningful where the
    divisor is not zero (HOL's \<open>x / 0\<close> is \<open>0\<close>, Go's is an infinity or a NaN).
  \<^item> A Go \<^verbatim>\<open>int\<close> is an \<^typ>\<open>int\<close>: the code only compares indices and lengths and
    subtracts one from a length, which never wraps.
  \<^item> A Go \<^verbatim>\<open>string\<close> is a \<^typ>\<open>string\<close> of bytes, read as UTF-8 where the code
    reads runes. The library functions \<^verbatim>\<open>strings.ToLower\<close> and
    \<^verbatim>\<open>strings.TrimSpace\<close> are modelled after the Go library, with its UTF-8 decoding
    and its white space; only the case tables of the package \<^verbatim>\<open>unicode\<close> for the
    runes beyond ASCII are a parameter.
  \<^item> A Go pointer that may be \<^verbatim>\<open>nil\<close> is an \<^typ>\<open>'a option\<close>.
  \<^item> A function that returns \<^verbatim>\<open>(value, error)\<close> returns a pair whose second component
    is \<open>None\<close> for a \<^verbatim>\<open>nil\<close> error.
  \<^item> The drawing surface \<^verbatim>\<open>gg.Context\<close> is an external library: it is modelled by the
    list of drawing calls it has received, oldest first.
\<close>

subsection \<open>Data model\<close>

record Point3D =
  X :: real
  Y :: real
  Z :: real
  Nome :: string

record Point2D =
  X :: real
  Y :: real

record Line =
  P1 :: int
  P2 :: int

record RenderSettings =
  CanvasWidth :: int
  CanvasHeight :: int
  Background :: string
  LineColor :: string
  VertexColor :: string
  LineWidth :: real
  ShowVertices :: "bool option"
  ShowLabels :: "bool option"

record Camera =
  Observer :: Point3D
  Distance :: real
  Width :: real
  Height :: real

record Figure =
  Nome :: string
  Pontos :: "Point3D list"
  Linhas :: "Line list"
  Camera :: Camera
  Render :: "RenderSettings option"

definition DefaultCamera :: Camera where
  "DefaultCamera =
     \<lparr>Observer = \<lparr>Point3D.X = 0, Point3D.Y = 0, Z = 0, Point3D.Nome = []\<rparr>,
      Distance = 10,
      Width = 12.8,
      Height = 9.6\<rparr>"

subsection \<open>Visual configuration\<close>

record colorRGB =
  R :: real
  G :: real
  B :: real

record RenderConfig =
  Background :: colorRGB
  LineColor :: colorRGB
  LineWidth :: real
  VertexColor :: colorRGB
  ShowVertices :: bool
  ShowLabels :: bool

definition DefaultRenderConfig :: RenderConfig where
  "DefaultRenderConfig =
     \<lparr>RenderConfig.Background = \<lparr>R = 1, G = 1, B = 1\<rparr>,
      RenderConfig.LineColor = \<lparr>R = 0, G = 0, B = 0\<rparr>,
      RenderConfig.LineWidth = 1.0,
      RenderConfig.VertexColor = \<lparr>R = 0.8, G = 0, B = 0\<rparr>,
      RenderConfig.ShowVertices = False,
      RenderConfig.ShowLabels = False\<rparr>"

subsection \<open>Projector\<close>

datatype draw_call =
    SetRGB real real real
  | Clear
  | SetLineWidth real
  | MoveTo real real
  | LineTo real real
  | Stroke
  | DrawCircle real real real
  | Fill
  | DrawString string real real

record Renderer3D =
  gg_context :: "draw_call list"
  width :: int
  height :: int
  camera :: Camera
  centerX :: real
  centerY :: real

text \<open>The zero value of \<^verbatim>\<open>types.Camera\<close>, which \<^verbatim>\<open>New\<close> leaves in the renderer.\<close>

definition zeroCamera :: Camera where
  "zeroCamera =
     \<lparr>Observer = \<lparr>Point3D.X = 0, Point3D.Y = 0, Z = 0, Point3D.Nome = []\<rparr>,
      Distance = 0, Width = 0, Height = 0\<rparr>"

definition New :: "int \<Rightarrow> int \<Rightarrow> Renderer3D" where
  "New w h =
     \<lparr>gg_context = [SetRGB 1 1 1, Clear, SetRGB 0 0 0, SetLineWidth 1],
      width = w,
      height = h,
      camera = zeroCamera,
      centerX = real_of_int w / 2,
      centerY = real_of_int h / 2\<rparr>"

definition SetCamera :: "Renderer3D \<Rightarrow> Camera \<Rightarrow> Renderer3D" where
  "SetCamera r c = r\<lparr>camera := c\<rparr>"

definition ProjectPoint :: "Renderer3D \<Rightarrow> Point3D \<Rightarrow> Point2D" where
  "ProjectPoint r p =
     (let px = Point3D.X p - Point3D.X (Observer (camera r));
          py = Z p - Z (Observer (camera r));
          pz = Point3D.Y p - Point3D.Y (Observer (camera r));
          pz = (if pz \<le> 0.1 then 0.1 else pz);
          projX = px * Distance (camera r) / pz;
          projY = py * Distance (camera r) / pz;
          scaleX = real_of_int (width r) / Width (camera r);
          scaleY = real_of_int (height r) / Height (camera r);
          screenX = centerX r + (projX * scaleX);
          screenY = centerY r - (projY * scaleY)
      in \<lparr>Point2D.X = screenX, Point2D.Y = screenY\<rparr>)"

text \<open>
  The projection as the specification words it: observer-relative coordinates with world
  \<open>Z\<close> on the vertical axis and world \<open>Y\<close> as depth, the depth clamped to \<open>0.1\<close>, the
  division by the depth, and the scaling about the centre of the screen with the vertical
  axis flipped.
\<close>

definition clampedDepth :: "Point3D \<Rightarrow> Camera \<Rightarrow> real" where
  "clampedDepth p c =
     (if Point3D.Y p - Point3D.Y (Observer c) \<le> 0.1 then 0.1
      else Point3D.Y p - Point3D.Y (Observer c))"

definition conicProjection :: "Point3D \<Rightarrow> Camera \<Rightarrow> int \<Rightarrow> int \<Rightarrow> Point2D" where
  "conicProjection p c w h =
     \<lparr>Point2D.X = real_of_int w / 2
        + ((Point3D.X p - Point3D.X (Observer c)) * Distance c / clampedDepth p c)
          * (real_of_int w / Width c),
      Point2D.Y = real_of_int h / 2
        - ((Z p - Z (Observer c)) * Distance c / clampedDepth p c)
          * (real_of_int h / Height c)\<rparr>"

subsection \<open>Loader\<close>

text \<open>
  The errors of \<^verbatim>\<open>validateFigure\<close>. The two index errors carry the three arguments
  of the message \<^verbatim>\<open>"linha %d referencia ponto P1 invalido: %d (deve estar entre 0 e %d)"\<close>:
  the position of the line, the offending index and the upper end of the valid range.
\<close>

datatype validation_error =
    ErrNoPoints
  | ErrNoLines
  | ErrInvalidP1 nat int int
  | ErrInvalidP2 nat int int

text \<open>The loop over \<^verbatim>\<open>figure.Linhas\<close>; \<open>n\<close> is \<^verbatim>\<open>len(figure.Pontos)\<close>, \<open>i\<close> the loop index.\<close>

fun checkLinhas :: "int \<Rightarrow> nat \<Rightarrow> Line list \<Rightarrow> validation_error option" where
  "checkLinhas n i [] = None"
| "checkLinhas n i (linha # rest) =
     (if P1 linha < 0 \<or> P1 linha \<ge> n then Some (ErrInvalidP1 i (P1 linha) (n - 1))
      else if P2 linha < 0 \<or> P2 linha \<ge> n then Some (ErrInvalidP2 i (P2 linha) (n - 1))
      else checkLinhas n (Suc i) rest)"

text \<open>
  \<^verbatim>\<open>validateFigure\<close> receives the figure by pointer: the model returns the figure as
  the call leaves it, beside the error.
\<close>

definition validateFigure :: "Figure \<Rightarrow> Figure \<times> validation_error option" where
  "validateFigure figure =
     (if length (Pontos figure) = 0 then (figure, Some ErrNoPoints)
      else if length (Linhas figure) = 0 then (figure, Some ErrNoLines)
      else (figure, checkLinhas (int (length (Pontos figure))) 0 (Linhas figure)))"

text \<open>
  \<^verbatim>\<open>LoadFigureFromYAML\<close>. Reading the file (\<^verbatim>\<open>os.ReadFile\<close>) and parsing it
  (\<^verbatim>\<open>yaml.Unmarshal\<close>) are external: they are the parameters \<open>readFile\<close> and
  \<open>unmarshal\<close>, each returning its error on the left.
\<close>

datatype ('r, 'y) load_error =
    ErrRead 'r
  | ErrParse 'y
  | ErrInvalid validation_error

definition LoadFigureFromYAML ::
  "(string \<Rightarrow> 'r + 'd) \<Rightarrow> ('d \<Rightarrow> 'y + Figure) \<Rightarrow> string \<Rightarrow> ('r, 'y) load_error + Figure" where
  "LoadFigureFromYAML readFile unmarshal filename =
     (case readFile filename of
        Inl err \<Rightarrow> Inl (ErrRead err)
      | Inr data \<Rightarrow>
          (case unmarshal data of
             Inl err \<Rightarrow> Inl (ErrParse err)
           | Inr figure \<Rightarrow>
               (let figure = (if Distance (Camera figure) = 0
                              then figure\<lparr>Camera := DefaultCamera\<rparr> else figure)
                in case validateFigure figure of
                     (figure, Some err) \<Rightarrow> Inl (ErrInvalid err)
                   | (figure, None) \<Rightarrow> Inr figure)))"

text \<open>
  The figure invariant in the specification's words: an index is valid when it lies in
  \<open>[0, pointCount - 1]\<close>, a line when both of its indices do.
\<close>

definition validIndex :: "Figure \<Rightarrow> int \<Rightarrow> bool" where
  "validIndex f k = (0 \<le> k \<and> k \<le> int (length (Pontos f)) - 1)"

definition validLine :: "Figure \<Rightarrow> Line \<Rightarrow> bool" where
  "validLine f l = (validIndex f (P1 l) \<and> validIndex f (P2 l))"

text \<open>The error the scan reports for a line \<open>l\<close> at position \<open>i\<close> that is not valid.\<close>

definition indexError :: "Figure \<Rightarrow> nat \<Rightarrow> Line \<Rightarrow> validation_error" where
  "indexError f i l =
     (if validIndex f (P1 l) then ErrInvalidP2 i (P2 l) (int (length (Pontos f)) - 1)
      else ErrInvalidP1 i (P1 l) (int (length (Pontos f)) - 1))"

subsection \<open>Strings\<close>

text \<open>
  A Go string is a sequence of bytes that a \<^verbatim>\<open>range\<close> loop and the packages
  \<^verbatim>\<open>strings\<close> and \<^verbatim>\<open>unicode\<close> read as UTF-8. A rune is its code point, a natural
  number.

  \<^verbatim>\<open>utf8.DecodeRuneInString\<close> returns the first rune of a string and its width in bytes;
  a byte that starts no valid encoding is the rune \<^verbatim>\<open>RuneError\<close> of width one. The lead
  byte fixes the width and the range of the second byte (the table \<^verbatim>\<open>first\<close> and the
  \<^verbatim>\<open>acceptRanges\<close> of the package); the masks \<^verbatim>\<open>s0 & 0x1F\<close>, \<^verbatim>\<open>s1 & 0x3F\<close> and the
  shifts of the source are written as remainders and products.
\<close>

abbreviation byte :: "char \<Rightarrow> nat" where
  "byte c \<equiv> of_char c"

definition RuneError :: nat where
  "RuneError = 0xFFFD"

definition DecodeRuneInString :: "string \<Rightarrow> nat \<times> nat" where
  "DecodeRuneInString s =
     (case s of
        [] \<Rightarrow> (RuneError, 0)
      | c0 # rest \<Rightarrow>
          (let s0 = byte c0 in
           if s0 < 0x80 then (s0, 1)
           else if s0 < 0xC2 \<or> 0xF5 \<le> s0 then (RuneError, 1)
           else
             (let sz = (if s0 < 0xE0 then 2 else if s0 < 0xF0 then 3 else 4 :: nat);
                  lo = (if s0 = 0xE0 then 0xA0 else if s0 = 0xF0 then 0x90 else 0x80);
                  hi = (if s0 = 0xED then 0x9F else if s0 = 0xF4 then 0x8F else 0xBF)
              in if length s < sz then (RuneError, 1)
                 else
                   (let s1 = byte (s ! 1) in
                    if s1 < lo \<or> hi < s1 then (RuneError, 1)
                    else if sz \<le> 2 then (s0 mod 32 * 64 + s1 mod 64, 2)
                    else
                      (let s2 = byte (s ! 2) in
                       if s2 < 0x80 \<or> 0xBF < s2 then (RuneError, 1)
                       else if sz \<le> 3
                       then (s0 mod 16 * 4096 + s1 mod 64 * 64 + s2 mod 64, 3)
                       else
                         (let s3 = byte (s ! 3) in
                          if s3 < 0x80 \<or> 0xBF < s3 then (RuneError, 1)
                          else (s0 mod 8 * 262144 + s1 mod 64 * 4096 + s2 mod 64 * 64
                                  + s3 mod 64, 4)))))))"

text \<open>
  \<^verbatim>\<open>utf8.AppendRune\<close>, which \<^verbatim>\<open>strings.Builder.WriteRune\<close> calls: the UTF-8 encoding
  of a rune, with \<^verbatim>\<open>RuneError\<close> in place of a surrogate or a value beyond
  \<^verbatim>\<open>utf8.MaxRune\<close>.
\<close>

definition encode3 :: "nat \<Rightarrow> string" where
  "encode3 r = [char_of (0xE0 + r div 4096), char_of (0x80 + r div 64 mod 64),
                char_of (0x80 + r mod 64)]"

definition AppendRune :: "nat \<Rightarrow> string" where
  "AppendRune r =
     (if r \<le> 0x7F then [char_of r]
      else if r \<le> 0x7FF then [char_of (0xC0 + r div 64), char_of (0x80 + r mod 64)]
      else if r > 0x10FFFF \<or> (0xD800 \<le> r \<and> r \<le> 0xDFFF) then encode3 RuneError
      else if r \<le> 0xFFFF then encode3 r
      else [char_of (0xF0 + r div 262144), char_of (0x80 + r div 4096 mod 64),
            char_of (0x80 + r div 64 mod 64), char_of (0x80 + r mod 64)])"

text \<open>
  The runes that \<^verbatim>\<open>for _, c := range s\<close> yields: each iteration decodes at the current
  index and advances by the width.
\<close>

function runes :: "string \<Rightarrow> nat list" where
  "runes [] = []"
| "runes (c # cs) =
     (case DecodeRuneInString (c # cs) of (r, w) \<Rightarrow> r # runes (drop w (c # cs)))"
  by pat_completeness auto
termination
  apply (relation "measure length")
   apply simp
  apply (auto simp: DecodeRuneInString_def Let_def split: if_splits)
  done

text \<open>
  \<^verbatim>\<open>strings.ToLower\<close>. A string without a byte from \<^verbatim>\<open>utf8.RuneSelf\<close> (\<open>0x80\<close>) on
  has \<^verbatim>\<open>'a' - 'A'\<close> added to its bytes \<^verbatim>\<open>'A'\<close> to \<^verbatim>\<open>'Z'\<close>; any other string is
  \<^verbatim>\<open>strings.Map(unicode.ToLower, s)\<close>, the encodings of the mapped runes one after the
  other (a validly encoded rune that the mapping leaves alone keeps its bytes, which are
  its encoding; an invalid byte becomes the encoding of the mapped \<^verbatim>\<open>RuneError\<close>).
  \<^verbatim>\<open>unicode.ToLower\<close> treats the ASCII runes itself and looks every other rune up
  in the case tables of the package \<^verbatim>\<open>unicode\<close>; these tables are the parameter
  \<open>lowerCase\<close>, which every function that lowercases a string takes.
\<close>

definition isASCII :: "string \<Rightarrow> bool" where
  "isASCII s = list_all (\<lambda>c. byte c < 128) s"

definition toLowerByte :: "char \<Rightarrow> char" where
  "toLowerByte c = (if 65 \<le> byte c \<and> byte c \<le> 90 then char_of (byte c + 32) else c)"

definition unicode_ToLower :: "(nat \<Rightarrow> nat) \<Rightarrow> nat \<Rightarrow> nat" where
  "unicode_ToLower lowerCase r =
     (if r \<le> 0x7F then (if 65 \<le> r \<and> r \<le> 90 then r + 32 else r) else lowerCase r)"

definition Map :: "(nat \<Rightarrow> nat) \<Rightarrow> string \<Rightarrow> string" where
  "Map mapping s = concat (map (\<lambda>c. AppendRune (mapping c)) (runes s))"

definition ToLower :: "(nat \<Rightarrow> nat) \<Rightarrow> string \<Rightarrow> string" where
  "ToLower lowerCase s =
     (if isASCII s then map toLowerByte s else Map (unicode_ToLower lowerCase) s)"

text \<open>
  \<^verbatim>\<open>strings.TrimSpace\<close>. The bytes of the table \<^verbatim>\<open>asciiSpace\<close> are tab, line feed,
  vertical tab, form feed, carriage return and space; \<^verbatim>\<open>unicode.IsSpace\<close> adds
  \<open>U+0085\<close> and \<open>U+00A0\<close> in Latin-1 and the \<^verbatim>\<open>White_Space\<close> runes beyond it. The
  function skips leading ASCII space bytes, then trailing ones; when it meets a byte from
  \<open>0x80\<close> on it hands what is left to \<^verbatim>\<open>strings.TrimFunc\<close> (from the front) or
  \<^verbatim>\<open>strings.TrimRightFunc\<close> (from the back) with \<^verbatim>\<open>unicode.IsSpace\<close>. These decode
  runes forwards with \<^verbatim>\<open>utf8.DecodeRuneInString\<close> and backwards with
  \<^verbatim>\<open>utf8.DecodeLastRuneInString\<close>, which looks for the start of the last rune among the
  last four bytes.
\<close>

definition isSpaceByte :: "char \<Rightarrow> bool" where
  "isSpaceByte c =
     (byte c = 9 \<or> byte c = 10 \<or> byte c = 11 \<or> byte c = 12 \<or> byte c = 13 \<or> byte c = 32)"

definition IsSpace :: "nat \<Rightarrow> bool" where
  "IsSpace r =
     (if r \<le> 0xFF
      then r = 9 \<or> r = 10 \<or> r = 11 \<or> r = 12 \<or> r = 13 \<or> r = 32 \<or> r = 0x85 \<or> r = 0xA0
      else r = 0x1680 \<or> (0x2000 \<le> r \<and> r \<le> 0x200A) \<or> r = 0x2028 \<or> r = 0x2029
           \<or> r = 0x202F \<or> r = 0x205F \<or> r = 0x3000)"

definition RuneStart :: "char \<Rightarrow> bool" where
  "RuneStart c = (\<not> (0x80 \<le> byte c \<and> byte c \<le> 0xBF))"

primrec scanBack :: "string \<Rightarrow> nat \<Rightarrow> nat \<Rightarrow> int" where
  "scanBack s low 0 = - 1"
| "scanBack s low (Suc start) =
     (if start < low then int start
      else if RuneStart (s ! start) then int start
      else scanBack s low start)"

definition DecodeLastRuneInString :: "string \<Rightarrow> nat \<times> nat" where
  "DecodeLastRuneInString s =
     (let n = length s in
      if n = 0 then (RuneError, 0)
      else
        (let r = byte (s ! (n - 1)) in
         if r < 0x80 then (r, 1)
         else
           (let low = n - 4;
                start = scanBack s low (n - 1);
                start = (if start < 0 then 0 else nat start)
            in case DecodeRuneInString (drop start s) of
                 (r, w) \<Rightarrow> if start + w \<noteq> n then (RuneError, 1) else (r, w))))"

function TrimLeftFunc :: "string \<Rightarrow> string" where
  "TrimLeftFunc [] = []"
| "TrimLeftFunc (c # cs) =
     (case DecodeRuneInString (c # cs) of
        (r, w) \<Rightarrow> if IsSpace r then TrimLeftFunc (drop w (c # cs)) else c # cs)"
  by pat_completeness auto
termination
  apply (relation "measure length")
   apply simp
  apply (auto simp: DecodeRuneInString_def Let_def split: if_splits)
  done

text \<open>
  The width that \<^verbatim>\<open>utf8.DecodeLastRuneInString\<close> returns for a string that is not empty
  is at least one and at most the length of the string: the backwards loop of
  \<^verbatim>\<open>lastIndexFunc\<close> ends.
\<close>

lemma scanBack_less: "scanBack s low k < int k"
  by (induction k) auto

lemma DecodeLast_width:
  assumes "s \<noteq> []" and "DecodeLastRuneInString s = (r, w)"
  shows "1 \<le> w \<and> w \<le> length s"
proof -
  from assms(1) have l: "Suc 0 \<le> length s"
    by (cases s) simp_all
  have "scanBack s (length s - 4) (length s - 1) < int (length s - 1)"
    by (rule scanBack_less)
  with l have "nat (scanBack s (length s - 4) (length s - Suc 0)) < length s"
    by simp
  with assms show ?thesis
    by (auto simp: DecodeLastRuneInString_def Let_def Suc_le_eq split: if_splits prod.splits)
qed

function lastIndexNotSpace :: "string \<Rightarrow> int" where
  "lastIndexNotSpace s =
     (if s = [] then - 1
      else
        (case DecodeLastRuneInString s of
           (r, w) \<Rightarrow>
             if \<not> IsSpace r then int (length s - w)
             else lastIndexNotSpace (take (length s - w) s)))"
  by pat_completeness auto
termination
  apply (relation "measure length")
   apply simp
  subgoal premises p for s r w
  proof -
    from p(2) have "DecodeLastRuneInString s = (r, w)" by simp
    from DecodeLast_width [OF p(1) this] have "length s - w < length s" by arith
    then show ?thesis by simp
  qed
  done

definition TrimRightFunc :: "string \<Rightarrow> string" where
  "TrimRightFunc s =
     (let i = lastIndexNotSpace s;
          i = (if i \<ge> 0 \<and> byte (s ! nat i) \<ge> 0x80
               then i + int (snd (DecodeRuneInString (drop (nat i) s)))
               else i + 1)
      in take (nat i) s)"

definition TrimFunc :: "string \<Rightarrow> string" where
  "TrimFunc s = TrimRightFunc (TrimLeftFunc s)"

fun trimSpaceStart :: "string \<Rightarrow> string + string" where
  "trimSpaceStart [] = Inr []"
| "trimSpaceStart (c # cs) =
     (if byte c \<ge> 0x80 then Inl (TrimFunc (c # cs))
      else if isSpaceByte c then trimSpaceStart cs
      else Inr (c # cs))"

primrec trimSpaceStop :: "string \<Rightarrow> nat \<Rightarrow> string" where
  "trimSpaceStop s 0 = []"
| "trimSpaceStop s (Suc stop) =
     (if byte (s ! stop) \<ge> 0x80 then TrimRightFunc (take (Suc stop) s)
      else if isSpaceByte (s ! stop) then trimSpaceStop s stop
      else take (Suc stop) s)"

definition TrimSpace :: "string \<Rightarrow> string" where
  "TrimSpace s =
     (case trimSpaceStart s of
        Inl trimmed \<Rightarrow> trimmed
      | Inr rest \<Rightarrow> trimSpaceStop rest (length rest))"

definition HasPrefix :: "string \<Rightarrow> string \<Rightarrow> bool" where
  "HasPrefix s prefix = (length s \<ge> length prefix \<and> take (length prefix) s = prefix)"

text \<open>
  \<^verbatim>\<open>strconv.ParseUint(s, 16, 8)\<close>. A byte is a digit when it is \<^verbatim>\<open>'0'\<close> to \<^verbatim>\<open>'9'\<close>, or
  when \<^verbatim>\<open>lower(c) = c | ('x' - 'X')\<close> is \<^verbatim>\<open>'a'\<close> to \<^verbatim>\<open>'z'\<close> and its value is below the
  base. The loop stops with a range error as soon as the number exceeds \<open>255\<close>, so the
  64-bit accumulator never wraps. The error is \<^verbatim>\<open>strconv.NumError\<close> with the input and
  \<^verbatim>\<open>ErrSyntax\<close> or \<^verbatim>\<open>ErrRange\<close>.
\<close>

datatype color_error =
    ErrEmptyValue
  | ErrInvalidFormat string
  | ErrSyntax string
  | ErrRange string

definition lower :: "nat \<Rightarrow> nat" where
  "lower c = or c 32"

definition digitValue :: "char \<Rightarrow> nat option" where
  "digitValue c =
     (let b = (of_char c :: nat) in
      if 48 \<le> b \<and> b \<le> 57 then Some (b - 48)
      else if 97 \<le> lower b \<and> lower b \<le> 122
      then (if lower b - 97 + 10 \<ge> 16 then None else Some (lower b - 97 + 10))
      else None)"

fun parseDigits :: "string \<Rightarrow> nat \<Rightarrow> string \<Rightarrow> color_error + nat" where
  "parseDigits s0 n [] = Inr n"
| "parseDigits s0 n (c # cs) =
     (case digitValue c of
        None \<Rightarrow> Inl (ErrSyntax s0)
      | Some d \<Rightarrow>
          (let n1 = n * 16 + d in
           if n1 > 255 then Inl (ErrRange s0) else parseDigits s0 n1 cs))"

definition ParseUint :: "string \<Rightarrow> color_error + nat" where
  "ParseUint s = (if s = [] then Inl (ErrSyntax s) else parseDigits s 0 s)"

text \<open>\<^verbatim>\<open>math.Round\<close>: the nearest integer, halves away from zero.\<close>

definition Round :: "real \<Rightarrow> real" where
  "Round x =
     (if x < 0 then - real_of_int \<lfloor>- x + 1 / 2\<rfloor> else real_of_int \<lfloor>x + 1 / 2\<rfloor>)"

subsection \<open>Colour resolver\<close>

definition namedColors :: "string \<Rightarrow> colorRGB option" where
  "namedColors =
     map_of
       [(''white'', \<lparr>R = 1, G = 1, B = 1\<rparr>),
        (''black'', \<lparr>R = 0, G = 0, B = 0\<rparr>),
        (''gray'', \<lparr>R = 0.5, G = 0.5, B = 0.5\<rparr>),
        (''grey'', \<lparr>R = 0.5, G = 0.5, B = 0.5\<rparr>),
        (''lightgray'', \<lparr>R = 0.82, G = 0.82, B = 0.82\<rparr>),
        (''lightgrey'', \<lparr>R = 0.82, G = 0.82, B = 0.82\<rparr>),
        (''darkgray'', \<lparr>R = 0.25, G = 0.25, B = 0.25\<rparr>),
        (''darkgrey'', \<lparr>R = 0.25, G = 0.25, B = 0.25\<rparr>)]"

definition parseHexComponent :: "string \<Rightarrow> real \<times> color_error option" where
  "parseHexComponent component =
     (case ParseUint component of
        Inl err \<Rightarrow> (0, Some err)
      | Inr v \<Rightarrow> (Round ((real v / 255.0) * 1000) / 1000, None))"

text \<open>The zero value \<^verbatim>\<open>colorRGB{}\<close> that accompanies every error.\<close>

definition zeroColor :: colorRGB where
  "zeroColor = \<lparr>R = 0, G = 0, B = 0\<rparr>"

text \<open>
  The loop \<^verbatim>\<open>for _, ch := range v\<close> that writes every rune of a three-byte string
  twice.
\<close>

definition duplicateEach :: "string \<Rightarrow> string" where
  "duplicateEach v = concat (map (\<lambda>ch. AppendRune ch @ AppendRune ch) (runes v))"

definition parseColor :: "(nat \<Rightarrow> nat) \<Rightarrow> string \<Rightarrow> colorRGB \<times> color_error option" where
  "parseColor lowerCase value =
     (let v = TrimSpace (ToLower lowerCase value) in
      if v = [] then (zeroColor, Some ErrEmptyValue)
      else
        (case namedColors v of
           Some col \<Rightarrow> (col, None)
         | None \<Rightarrow>
             (let v = (if HasPrefix v ''#'' then drop 1 v else v);
                  v = (if length v = 3 then duplicateEach v else v)
              in if length v \<noteq> 6 then (zeroColor, Some (ErrInvalidFormat value))
                 else
                   (case parseHexComponent (take 2 v) of
                      (r, Some err) \<Rightarrow> (zeroColor, Some err)
                    | (r, None) \<Rightarrow>
                        (case parseHexComponent (take 2 (drop 2 v)) of
                           (g, Some err) \<Rightarrow> (zeroColor, Some err)
                         | (g, None) \<Rightarrow>
                             (case parseHexComponent (take 2 (drop 4 v)) of
                                (b, Some err) \<Rightarrow> (zeroColor, Some err)
                              | (b, None) \<Rightarrow> (\<lparr>R = r, G = g, B = b\<rparr>, None)))))))"

text \<open>
  Hexadecimal notation, for stating what the resolver computes: the hexadecimal digits of
  either case, the value of a digit as its position among \<open>0123456789abcdef\<close>, the value
  of a digit string, and the form of the input that is read as hexadecimal (trimmed,
  lowercased, without one leading \<open>#\<close>, a three-character form with every character
  doubled).
\<close>

definition isHexDigit :: "char \<Rightarrow> bool" where
  "isHexDigit c = (c \<in> set ''0123456789abcdefABCDEF'')"

definition nibble :: "char \<Rightarrow> nat" where
  "nibble c = length (takeWhile (\<lambda>x. x \<noteq> toLowerByte c) ''0123456789abcdef'')"

definition byteValue :: "string \<Rightarrow> nat" where
  "byteValue s = foldl (\<lambda>n c. 16 * n + nibble c) 0 s"

definition hexForm :: "(nat \<Rightarrow> nat) \<Rightarrow> string \<Rightarrow> string" where
  "hexForm lowerCase value =
     (let v = TrimSpace (ToLower lowerCase value);
          v = (if HasPrefix v ''#'' then drop 1 v else v)
      in if length v = 3 then duplicateEach v else v)"

text \<open>
  \<^verbatim>\<open>ConfigFromFigure\<close>. A colour that the settings leave empty keeps the value the
  configuration has; an error returns the configuration as built so far.
\<close>

datatype config_error =
    ErrBackground color_error
  | ErrLineColor color_error
  | ErrVertexColor color_error

definition ConfigFromFigure ::
  "(nat \<Rightarrow> nat) \<Rightarrow> Figure option \<Rightarrow> RenderConfig \<times> config_error option" where
  "ConfigFromFigure lowerCase fig =
     (let cfg = DefaultRenderConfig in
      case fig of
        None \<Rightarrow> (cfg, None)
      | Some figure \<Rightarrow>
     (case Render figure of
        None \<Rightarrow> (cfg, None)
      | Some settings \<Rightarrow>
     (case (if RenderSettings.Background settings \<noteq> []
            then parseColor lowerCase (RenderSettings.Background settings)
            else (RenderConfig.Background cfg, None)) of
        (col, Some err) \<Rightarrow> (cfg, Some (ErrBackground err))
      | (col, None) \<Rightarrow>
     (let cfg = cfg\<lparr>RenderConfig.Background := col\<rparr> in
      case (if RenderSettings.LineColor settings \<noteq> []
            then parseColor lowerCase (RenderSettings.LineColor settings)
            else (RenderConfig.LineColor cfg, None)) of
        (col, Some err) \<Rightarrow> (cfg, Some (ErrLineColor err))
      | (col, None) \<Rightarrow>
     (let cfg = cfg\<lparr>RenderConfig.LineColor := col\<rparr> in
      case (if RenderSettings.VertexColor settings \<noteq> []
            then parseColor lowerCase (RenderSettings.VertexColor settings)
            else (RenderConfig.VertexColor cfg, None)) of
        (col, Some err) \<Rightarrow> (cfg, Some (ErrVertexColor err))
      | (col, None) \<Rightarrow>
     (let cfg = cfg\<lparr>RenderConfig.VertexColor := col\<rparr>;
          cfg = (if RenderSettings.LineWidth settings > 0
                 then cfg\<lparr>RenderConfig.LineWidth := RenderSettings.LineWidth settings\<rparr>
                 else cfg);
          cfg = (case RenderSettings.ShowVertices settings of
                   Some b \<Rightarrow> cfg\<lparr>RenderConfig.ShowVertices := b\<rparr>
                 | None \<Rightarrow> cfg);
          cfg = (case RenderSettings.ShowLabels settings of
                   Some b \<Rightarrow> cfg\<lparr>RenderConfig.ShowLabels := b\<rparr>
                 | None \<Rightarrow> cfg)
      in (cfg, None)))))))"

subsection \<open>Draw pipeline\<close>

text \<open>
  How a call of \<^verbatim>\<open>RenderFigureWithConfig\<close> can fail: it returns the error
  \<^verbatim>\<open>"figura nao possui pontos"\<close>, or the Go runtime panics on a slice index out of
  range (the index and the length of the slice).
\<close>

datatype render_error =
    ErrNoPontos
  | PanicIndexOutOfRange int nat

definition setColor :: "colorRGB \<Rightarrow> draw_call" where
  "setColor col = SetRGB (R col) (G col) (B col)"

text \<open>
  The loop over \<^verbatim>\<open>figure.Linhas\<close>. The guard skips a line when one of its indices is
  at or beyond \<^verbatim>\<open>len(pontos2D)\<close>; the two reads \<^verbatim>\<open>pontos2D[linha.P1]\<close> and
  \<^verbatim>\<open>pontos2D[linha.P2]\<close> that follow panic on a negative index.
\<close>

fun strokeLinhas ::
  "Point2D list \<Rightarrow> Line list \<Rightarrow> draw_call list \<Rightarrow> render_error + draw_call list" where
  "strokeLinhas pontos2D [] ctx = Inr ctx"
| "strokeLinhas pontos2D (linha # rest) ctx =
     (if P1 linha \<ge> int (length pontos2D) \<or> P2 linha \<ge> int (length pontos2D)
      then strokeLinhas pontos2D rest ctx
      else if P1 linha < 0 then Inl (PanicIndexOutOfRange (P1 linha) (length pontos2D))
      else if P2 linha < 0 then Inl (PanicIndexOutOfRange (P2 linha) (length pontos2D))
      else (let p1 = pontos2D ! nat (P1 linha);
                p2 = pontos2D ! nat (P2 linha)
            in strokeLinhas pontos2D rest
                 (ctx @ [MoveTo (Point2D.X p1) (Point2D.Y p1),
                         LineTo (Point2D.X p2) (Point2D.Y p2),
                         Stroke])))"

text \<open>
  The two loops over \<^verbatim>\<open>pontos2D\<close>, which read \<^verbatim>\<open>figure.Pontos[i]\<close> at the same
  index: they run over the points paired with their projections.
\<close>

fun drawVertices ::
  "RenderConfig \<Rightarrow> (Point3D \<times> Point2D) list \<Rightarrow> draw_call list \<Rightarrow> draw_call list" where
  "drawVertices cfg [] ctx = ctx"
| "drawVertices cfg ((ponto, p2D) # rest) ctx =
     (let ctx = ctx @ [DrawCircle (Point2D.X p2D) (Point2D.Y p2D) 2, Fill];
          ctx = (if RenderConfig.ShowLabels cfg \<and> Point3D.Nome ponto \<noteq> []
                 then ctx @ [setColor (RenderConfig.LineColor cfg),
                             DrawString (Point3D.Nome ponto)
                               (Point2D.X p2D + 5) (Point2D.Y p2D - 5),
                             setColor (RenderConfig.VertexColor cfg)]
                 else ctx)
      in drawVertices cfg rest ctx)"

fun drawLabels ::
  "RenderConfig \<Rightarrow> (Point3D \<times> Point2D) list \<Rightarrow> draw_call list \<Rightarrow> draw_call list" where
  "drawLabels cfg [] ctx = ctx"
| "drawLabels cfg ((ponto, p2D) # rest) ctx =
     (if Point3D.Nome ponto = [] then drawLabels cfg rest ctx
      else drawLabels cfg rest
             (ctx @ [setColor (RenderConfig.LineColor cfg),
                     DrawString (Point3D.Nome ponto)
                       (Point2D.X p2D + 5) (Point2D.Y p2D - 5)]))"

text \<open>
  \<^verbatim>\<open>RenderFigureWithConfig\<close>: \<open>Inr\<close> of the renderer after the call when it returns
  \<^verbatim>\<open>nil\<close>, \<open>Inl\<close> of the failure otherwise.
\<close>

definition RenderFigureWithConfig ::
  "Renderer3D \<Rightarrow> Figure \<Rightarrow> RenderConfig \<Rightarrow> render_error + Renderer3D" where
  "RenderFigureWithConfig r figure cfg =
     (if length (Pontos figure) = 0 then Inl ErrNoPontos
      else
        (let ctx = gg_context r @
               [setColor (RenderConfig.Background cfg), Clear,
                setColor (RenderConfig.LineColor cfg),
                SetLineWidth (RenderConfig.LineWidth cfg)];
             pontos2D = map (ProjectPoint r) (Pontos figure)
         in case strokeLinhas pontos2D (Linhas figure) ctx of
              Inl err \<Rightarrow> Inl err
            | Inr ctx \<Rightarrow>
                (let ctx =
                   (if RenderConfig.ShowVertices cfg
                    then drawVertices cfg (zip (Pontos figure) pontos2D)
                           (ctx @ [setColor (RenderConfig.VertexColor cfg)])
                         @ [setColor (RenderConfig.LineColor cfg)]
                    else if RenderConfig.ShowLabels cfg
                    then drawLabels cfg (zip (Pontos figure) pontos2D) ctx
                         @ [setColor (RenderConfig.LineColor cfg)]
                    else ctx)
                 in Inr (r\<lparr>gg_context := ctx\<rparr>))))"

definition RenderFigure :: "Renderer3D \<Rightarrow> Figure \<Rightarrow> render_error + Renderer3D" where
  "RenderFigure r figure = RenderFigureWithConfig r figure DefaultRenderConfig"

text \<open>
  An index in range for the point list, and the figure that keeps only the lines in range:
  what the specification says the pipeline draws.
\<close>

definition inRange :: "Figure \<Rightarrow> int \<Rightarrow> bool" where
  "inRange f k = (0 \<le> k \<and> k < int (length (Pontos f)))"

definition linesInRange :: "Figure \<Rightarrow> Figure" where
  "linesInRange f = f\<lparr>Linhas := filter (\<lambda>l. inRange f (P1 l) \<and> inRange f (P2 l)) (Linhas f)\<rparr>"

subsection \<open>Figures of the test suite\<close>

text \<open>
  The figures of \<^verbatim>\<open>TestRenderFigure_ValidFigure\<close> and
  \<^verbatim>\<open>TestRenderFigure_InvalidLineReference\<close> (\<^verbatim>\<open>renderer_test.go\<close>).
\<close>

definition simpleLine :: Figure where
  "simpleLine =
     \<lparr>Figure.Nome = ''simple_line'',
      Pontos = [\<lparr>Point3D.X = 0, Point3D.Y = 5, Z = 0, Point3D.Nome = []\<rparr>,
                \<lparr>Point3D.X = 1, Point3D.Y = 5, Z = 1, Point3D.Nome = []\<rparr>],
      Linhas = [\<lparr>P1 = 0, P2 = 1\<rparr>],
      Camera = DefaultCamera,
      Render = None\<rparr>"

definition invalidLine :: Figure where
  "invalidLine =
     \<lparr>Figure.Nome = ''invalid_line'',
      Pontos = [\<lparr>Point3D.X = 0, Point3D.Y = 5, Z = 0, Point3D.Nome = []\<rparr>],
      Linhas = [\<lparr>P1 = 0, P2 = 5\<rparr>],
      Camera = DefaultCamera,
      Render = None\<rparr>"

text \<open>
  Two figures with one point and one line whose index is negative, as a caller that does
  not go through the loader can build them.
\<close>

definition negativeP1 :: Figure where
  "negativeP1 = invalidLine\<lparr>Linhas := [\<lparr>P1 = - 1, P2 = 0\<rparr>]\<rparr>"

definition negativeP2 :: Figure where
  "negativeP2 = invalidLine\<lparr>Linhas := [\<lparr>P1 = 0, P2 = - 1\<rparr>]\<rparr>"

text \<open>The figure of \<^verbatim>\<open>TestConfigFromFigure_WithSettings\<close> (\<^verbatim>\<open>config_test.go\<close>).\<close>

definition withSettings :: Figure where
  "withSettings =
     \<lparr>Figure.Nome = ''test'', Pontos = [], Linhas = [], Camera = zeroCamera,
      Render = Some
        \<lparr>CanvasWidth = 0, CanvasHeight = 0,
         RenderSettings.Background = ''black'',
         RenderSettings.LineColor = ''#ff0000'',
         RenderSettings.VertexColor = ''#0000ff'',
         RenderSettings.LineWidth = 2.5,
         RenderSettings.ShowVertices = Some True,
         RenderSettings.ShowLabels = Some False\<rparr>\<rparr>"

section \<open>Properties of the projector\<close>

text \<open>
  C1. For every point \<open>p\<close>, camera \<open>c\<close> and screen dimensions \<open>w\<close>, \<open>h\<close>, the renderer
  made by \<open>New w h\<close> and given the camera \<open>c\<close> projects \<open>p\<close> to the conic-perspective
  point of the specification: \<open>px = p.X - observer.X\<close>, \<open>py = p.Z - observer.Z\<close>,
  \<open>pz = p.Y - observer.Y\<close> replaced by \<open>0.1\<close> when \<open>pz \<le> 0.1\<close>, and the result is
  \<open>(w/2 + px * R / pz * (w / L1), h/2 - py * R / pz * (h / L2))\<close>.
\<close>

theorem ProjectPoint_conic:
  "ProjectPoint (SetCamera (New w h) c) p = conicProjection p c w h"
  by (simp add: ProjectPoint_def SetCamera_def New_def conicProjection_def clampedDepth_def
      Let_def)

text \<open>
  C8. The projection is linear in the camera distance: with the point, the observer and
  hence the clamped depth fixed, doubling \<open>Distance\<close> doubles the offset of the projected
  point from the centre of the screen \<open>(w/2, h/2)\<close> in both coordinates. Stated in exact
  arithmetic, for a camera whose viewing rectangle has nonzero width and height.
\<close>

theorem ProjectPoint_linear_in_distance:
  assumes "Width c \<noteq> 0" and "Height c \<noteq> 0"
  shows "clampedDepth p (c\<lparr>Distance := 2 * Distance c\<rparr>) = clampedDepth p c
    \<and> Point2D.X (ProjectPoint (SetCamera (New w h) (c\<lparr>Distance := 2 * Distance c\<rparr>)) p)
          - real_of_int w / 2
        = 2 * (Point2D.X (ProjectPoint (SetCamera (New w h) c) p) - real_of_int w / 2)
    \<and> Point2D.Y (ProjectPoint (SetCamera (New w h) (c\<lparr>Distance := 2 * Distance c\<rparr>)) p)
          - real_of_int h / 2
        = 2 * (Point2D.Y (ProjectPoint (SetCamera (New w h) c) p) - real_of_int h / 2)"
  by (simp add: ProjectPoint_def SetCamera_def New_def clampedDepth_def Let_def)

theorem ProjectPoint_linear_in_distance_witness:
  "Point2D.X (ProjectPoint (SetCamera (New 800 600)
      (DefaultCamera\<lparr>Distance := 2 * Distance DefaultCamera\<rparr>))
      \<lparr>Point3D.X = 2, Point3D.Y = 5, Z = 1, Point3D.Nome = []\<rparr>) - real_of_int 800 / 2
    = 2 * (Point2D.X (ProjectPoint (SetCamera (New 800 600) DefaultCamera)
      \<lparr>Point3D.X = 2, Point3D.Y = 5, Z = 1, Point3D.Nome = []\<rparr>) - real_of_int 800 / 2)
   \<and> Point2D.X (ProjectPoint (SetCamera (New 800 600) DefaultCamera)
      \<lparr>Point3D.X = 2, Point3D.Y = 5, Z = 1, Point3D.Nome = []\<rparr>) = 650
   \<and> Point2D.Y (ProjectPoint (SetCamera (New 800 600) DefaultCamera)
      \<lparr>Point3D.X = 2, Point3D.Y = 5, Z = 1, Point3D.Nome = []\<rparr>) = 175"
proof -
  have w: "Width DefaultCamera \<noteq> 0" and h: "Height DefaultCamera \<noteq> 0"
    by (simp_all add: DefaultCamera_def)
  have "Point2D.X (ProjectPoint (SetCamera (New 800 600) DefaultCamera)
      \<lparr>Point3D.X = 2, Point3D.Y = 5, Z = 1, Point3D.Nome = []\<rparr>) = 650"
    by (simp add: ProjectPoint_def SetCamera_def New_def DefaultCamera_def Let_def)
  moreover have "Point2D.Y (ProjectPoint (SetCamera (New 800 600) DefaultCamera)
      \<lparr>Point3D.X = 2, Point3D.Y = 5, Z = 1, Point3D.Nome = []\<rparr>) = 175"
    by (simp add: ProjectPoint_def SetCamera_def New_def DefaultCamera_def Let_def)
  ultimately show ?thesis
    using ProjectPoint_linear_in_distance [OF w h, of
        "\<lparr>Point3D.X = 2, Point3D.Y = 5, Z = 1, Point3D.Nome = []\<rparr>" 800 600]
    by simp
qed

section \<open>Properties of the loader\<close>

lemma checkLinhas_None:
  "(checkLinhas (int (length (Pontos f))) i ls = None) = list_all (validLine f) ls"
  by (induction ls arbitrary: i) (auto simp: validLine_def validIndex_def)

lemma checkLinhas_first:
  assumes "\<not> list_all (validLine f) ls"
  shows "\<exists>k<length ls. list_all (validLine f) (take k ls) \<and> \<not> validLine f (ls ! k)
           \<and> checkLinhas (int (length (Pontos f))) i ls = Some (indexError f (i + k) (ls ! k))"
  using assms
proof (induction ls arbitrary: i)
  case Nil
  then show ?case by simp
next
  case (Cons l ls)
  show ?case
  proof (cases "validLine f l")
    case False
    then have "checkLinhas (int (length (Pontos f))) i (l # ls) = Some (indexError f i l)"
      by (auto simp: validLine_def validIndex_def indexError_def)
    with False show ?thesis
      by (intro exI [of _ 0]) simp
  next
    case True
    with Cons.prems have "\<not> list_all (validLine f) ls" by simp
    from Cons.IH [OF this, of "Suc i"] obtain k where k: "k < length ls"
      "list_all (validLine f) (take k ls)" "\<not> validLine f (ls ! k)"
      "checkLinhas (int (length (Pontos f))) (Suc i) ls = Some (indexError f (Suc i + k) (ls ! k))"
      by blast
    from True have "checkLinhas (int (length (Pontos f))) i (l # ls)
        = checkLinhas (int (length (Pontos f))) (Suc i) ls"
      by (auto simp: validLine_def validIndex_def)
    with k True show ?thesis
      by (intro exI [of _ "Suc k"]) simp
  qed
qed

text \<open>
  C3. \<^verbatim>\<open>validateFigure\<close> returns an error exactly when the figure has no point, or no
  line, or some line has an index outside \<open>[0, pointCount - 1]\<close>. In the last case the
  error is the one of the first such line: it carries the position of the line, the
  offending index (\<open>P1\<close> if \<open>P1\<close> is out of range, else \<open>P2\<close>) and the upper end
  \<open>pointCount - 1\<close> of the valid range. The figure is left as it was.
\<close>

theorem validateFigure_spec:
  "fst (validateFigure f) = f
   \<and> (snd (validateFigure f) \<noteq> None)
       = (Pontos f = [] \<or> Linhas f = [] \<or> \<not> list_all (validLine f) (Linhas f))
   \<and> (Pontos f \<noteq> [] \<and> Linhas f \<noteq> [] \<and> \<not> list_all (validLine f) (Linhas f) \<longrightarrow>
        (\<exists>k<length (Linhas f).
            list_all (validLine f) (take k (Linhas f))
          \<and> \<not> validLine f (Linhas f ! k)
          \<and> snd (validateFigure f) = Some (indexError f k (Linhas f ! k))))"
proof (intro conjI impI)
  show "fst (validateFigure f) = f"
    by (simp add: validateFigure_def)
  show "(snd (validateFigure f) \<noteq> None)
       = (Pontos f = [] \<or> Linhas f = [] \<or> \<not> list_all (validLine f) (Linhas f))"
    using checkLinhas_None [of f 0 "Linhas f"]
    by (auto simp: validateFigure_def)
next
  assume a: "Pontos f \<noteq> [] \<and> Linhas f \<noteq> [] \<and> \<not> list_all (validLine f) (Linhas f)"
  then have "snd (validateFigure f) = checkLinhas (int (length (Pontos f))) 0 (Linhas f)"
    by (simp add: validateFigure_def)
  with checkLinhas_first [of f "Linhas f" 0] a
  show "\<exists>k<length (Linhas f).
            list_all (validLine f) (take k (Linhas f))
          \<and> \<not> validLine f (Linhas f ! k)
          \<and> snd (validateFigure f) = Some (indexError f k (Linhas f ! k))"
    by simp
qed

theorem validateFigure_spec_witness:
  "Pontos invalidLine \<noteq> [] \<and> Linhas invalidLine \<noteq> []
   \<and> \<not> list_all (validLine invalidLine) (Linhas invalidLine)
   \<and> fst (validateFigure invalidLine) = invalidLine
   \<and> snd (validateFigure invalidLine) = Some (ErrInvalidP2 0 5 0)"
proof -
  have a: "Pontos invalidLine \<noteq> [] \<and> Linhas invalidLine \<noteq> []
      \<and> \<not> list_all (validLine invalidLine) (Linhas invalidLine)"
    by (simp add: invalidLine_def validLine_def validIndex_def)
  have "Linhas invalidLine = [\<lparr>P1 = 0, P2 = 5\<rparr>]"
    by (simp add: invalidLine_def)
  moreover have "indexError invalidLine 0 \<lparr>P1 = 0, P2 = 5\<rparr> = ErrInvalidP2 0 5 0"
    by (simp add: indexError_def invalidLine_def validIndex_def)
  ultimately show ?thesis
    using validateFigure_spec [of invalidLine] a by auto
qed

text \<open>
  C9. Once the file is read and parsed, \<^verbatim>\<open>LoadFigureFromYAML\<close> replaces a camera
  whose \<open>Distance\<close> is \<open>0\<close> by the default camera as a whole (observer at the origin,
  distance \<open>10\<close>, width \<open>12.8\<close>, height \<open>9.6\<close>) and keeps a camera with any other
  \<open>Distance\<close> as it is, before the figure is validated and returned.
\<close>

theorem LoadFigureFromYAML_default_camera:
  assumes "readFile filename = Inr data" and "unmarshal data = Inr figure"
  shows "LoadFigureFromYAML readFile unmarshal filename =
      (let loaded = figure\<lparr>Camera := if Distance (Camera figure) = 0 then DefaultCamera
                                        else Camera figure\<rparr>
       in case snd (validateFigure loaded) of
            None \<Rightarrow> Inr loaded
          | Some err \<Rightarrow> Inl (ErrInvalid err))
    \<and> Observer DefaultCamera = \<lparr>Point3D.X = 0, Point3D.Y = 0, Z = 0, Point3D.Nome = []\<rparr>
    \<and> Distance DefaultCamera = 10
    \<and> Width DefaultCamera = 12.8
    \<and> Height DefaultCamera = 9.6"
  using assms
  by (simp add: LoadFigureFromYAML_def validateFigure_def DefaultCamera_def Let_def
      split: option.splits)

theorem LoadFigureFromYAML_default_camera_witness:
  "LoadFigureFromYAML (\<lambda>name. Inr name :: unit + string)
       (\<lambda>data. Inr (simpleLine\<lparr>Camera := zeroCamera\<rparr>) :: unit + Figure) ''figura.yaml''
     = Inr simpleLine
   \<and> LoadFigureFromYAML (\<lambda>name. Inr name :: unit + string)
       (\<lambda>data. Inr (simpleLine\<lparr>Camera := DefaultCamera\<lparr>Distance := 5\<rparr>\<rparr>) :: unit + Figure)
       ''figura.yaml''
     = Inr (simpleLine\<lparr>Camera := DefaultCamera\<lparr>Distance := 5\<rparr>\<rparr>)"
proof -
  have v: "snd (validateFigure (simpleLine\<lparr>Camera := c\<rparr>)) = None" for c
    by (simp add: validateFigure_def simpleLine_def)
  have v0: "snd (validateFigure simpleLine) = None"
    by (simp add: validateFigure_def simpleLine_def)
  have "Camera simpleLine = DefaultCamera"
    by (simp add: simpleLine_def)
  then have d: "simpleLine\<lparr>Camera := DefaultCamera\<rparr> = simpleLine"
    by simp
  show ?thesis
    using LoadFigureFromYAML_default_camera
        [of "\<lambda>name. Inr name :: unit + string" "''figura.yaml''" "''figura.yaml''"
          "\<lambda>data. Inr (simpleLine\<lparr>Camera := zeroCamera\<rparr>) :: unit + Figure"
          "simpleLine\<lparr>Camera := zeroCamera\<rparr>"]
      LoadFigureFromYAML_default_camera
        [of "\<lambda>name. Inr name :: unit + string" "''figura.yaml''" "''figura.yaml''"
          "\<lambda>data. Inr (simpleLine\<lparr>Camera := DefaultCamera\<lparr>Distance := 5\<rparr>\<rparr>) :: unit + Figure"
          "simpleLine\<lparr>Camera := DefaultCamera\<lparr>Distance := 5\<rparr>\<rparr>"]
    by (simp add: v v0 d zeroCamera_def)
qed

section \<open>Properties of the draw pipeline\<close>

lemma strokeLinhas_nonnegative:
  assumes "list_all (\<lambda>l. 0 \<le> P1 l \<and> 0 \<le> P2 l) ls"
  shows "\<exists>ctx'. strokeLinhas ps ls ctx = Inr ctx'
    \<and> strokeLinhas ps
          (filter (\<lambda>l. (0 \<le> P1 l \<and> P1 l < int (length ps)) \<and> (0 \<le> P2 l \<and> P2 l < int (length ps))) ls)
          ctx = Inr ctx'"
  using assms
proof (induction ls arbitrary: ctx)
  case Nil
  then show ?case by simp
next
  case (Cons l ls)
  then have ih: "\<exists>ctx'. strokeLinhas ps ls c = Inr ctx'
    \<and> strokeLinhas ps
          (filter (\<lambda>l. (0 \<le> P1 l \<and> P1 l < int (length ps)) \<and> (0 \<le> P2 l \<and> P2 l < int (length ps))) ls)
          c = Inr ctx'" for c
    by simp
  from Cons.prems have nn: "0 \<le> P1 l" "0 \<le> P2 l" by simp_all
  show ?case
  proof (cases "P1 l \<ge> int (length ps) \<or> P2 l \<ge> int (length ps)")
    case True
    with ih [of ctx] show ?thesis by auto
  next
    case False
    with nn ih [of "ctx @ [MoveTo (Point2D.X (ps ! nat (P1 l))) (Point2D.Y (ps ! nat (P1 l))),
        LineTo (Point2D.X (ps ! nat (P2 l))) (Point2D.Y (ps ! nat (P2 l))), Stroke]"]
    show ?thesis by (auto simp: Let_def)
  qed
qed

text \<open>
  The part of the safety net that holds: when no line of the figure has a negative index,
  the render call returns without error, and it leaves the renderer exactly as the figure
  without its out-of-range lines does, so that only the background and the lines whose two
  indices are in range are drawn.
\<close>

theorem render_skips_lines_beyond_range:
  assumes "Pontos f \<noteq> []" and "list_all (\<lambda>l. 0 \<le> P1 l \<and> 0 \<le> P2 l) (Linhas f)"
  shows "\<exists>r'. RenderFigureWithConfig r f cfg = Inr r'
    \<and> RenderFigureWithConfig r (linesInRange f) cfg = Inr r'"
proof -
  from strokeLinhas_nonnegative [OF assms(2), of "map (ProjectPoint r) (Pontos f)"
      "gg_context r @ [setColor (RenderConfig.Background cfg), Clear,
         setColor (RenderConfig.LineColor cfg), SetLineWidth (RenderConfig.LineWidth cfg)]"]
  obtain ctx' where c:
    "strokeLinhas (map (ProjectPoint r) (Pontos f)) (Linhas f)
       (gg_context r @ [setColor (RenderConfig.Background cfg), Clear,
         setColor (RenderConfig.LineColor cfg), SetLineWidth (RenderConfig.LineWidth cfg)])
     = Inr ctx'"
    "strokeLinhas (map (ProjectPoint r) (Pontos f))
       (filter (\<lambda>l. inRange f (P1 l) \<and> inRange f (P2 l)) (Linhas f))
       (gg_context r @ [setColor (RenderConfig.Background cfg), Clear,
         setColor (RenderConfig.LineColor cfg), SetLineWidth (RenderConfig.LineWidth cfg)])
     = Inr ctx'"
    by (auto simp: inRange_def)
  from assms(1) c show ?thesis
    by (simp add: RenderFigureWithConfig_def linesInRange_def Let_def)
qed

theorem render_skips_lines_beyond_range_witness:
  "RenderFigure (SetCamera (New 800 600) DefaultCamera) invalidLine =
     Inr (SetCamera (New 800 600) DefaultCamera
          \<lparr>gg_context := [SetRGB 1 1 1, Clear, SetRGB 0 0 0, SetLineWidth 1,
                           SetRGB 1 1 1, Clear, SetRGB 0 0 0, SetLineWidth 1]\<rparr>)"
proof -
  have "Pontos invalidLine \<noteq> []"
    and "list_all (\<lambda>l. 0 \<le> P1 l \<and> 0 \<le> P2 l) (Linhas invalidLine)"
    by (simp_all add: invalidLine_def)
  from render_skips_lines_beyond_range [OF this,
      of "SetCamera (New 800 600) DefaultCamera" DefaultRenderConfig]
  obtain r' where r':
    "RenderFigureWithConfig (SetCamera (New 800 600) DefaultCamera) invalidLine
       DefaultRenderConfig = Inr r'"
    "RenderFigureWithConfig (SetCamera (New 800 600) DefaultCamera) (linesInRange invalidLine)
       DefaultRenderConfig = Inr r'"
    by blast
  have "linesInRange invalidLine = invalidLine\<lparr>Linhas := []\<rparr>"
    by (simp add: linesInRange_def invalidLine_def inRange_def)
  with r'(2) have "r' = SetCamera (New 800 600) DefaultCamera
          \<lparr>gg_context := [SetRGB 1 1 1, Clear, SetRGB 0 0 0, SetLineWidth 1,
                           SetRGB 1 1 1, Clear, SetRGB 0 0 0, SetLineWidth 1]\<rparr>"
    by (simp add: RenderFigureWithConfig_def invalidLine_def DefaultRenderConfig_def
        setColor_def SetCamera_def New_def Let_def)
  with r'(1) show ?thesis
    by (simp add: RenderFigure_def)
qed

text \<open>
  C2. The guard of the line loop only tests the indices against the upper end of the
  range. A figure with one point and the line \<open>(-1, 0)\<close> passes the guard, and the read
  \<^verbatim>\<open>pontos2D[linha.P1]\<close> that follows stops the render call with a runtime panic,
  whatever the renderer and the configuration: the out-of-range line is not skipped.
\<close>

theorem render_negative_P1_panics:
  "length (Pontos negativeP1) = 1
   \<and> Linhas negativeP1 = [\<lparr>P1 = - 1, P2 = 0\<rparr>]
   \<and> RenderFigureWithConfig r negativeP1 cfg = Inl (PanicIndexOutOfRange (- 1) 1)"
  by (simp add: negativeP1_def invalidLine_def RenderFigureWithConfig_def Let_def)

text \<open>
  C4. The render call returns the error of an empty point list exactly when the point list
  is empty; a figure with a point does not always render, though: with one point and the
  line \<open>(0, -1)\<close> the call ends in a runtime panic.
\<close>

theorem render_negative_P2_panics:
  "length (Pontos negativeP2) = 1
   \<and> Linhas negativeP2 = [\<lparr>P1 = 0, P2 = - 1\<rparr>]
   \<and> RenderFigureWithConfig r negativeP2 cfg = Inl (PanicIndexOutOfRange (- 1) 1)"
  by (simp add: negativeP2_def invalidLine_def RenderFigureWithConfig_def Let_def)

text \<open>
  The render call returns an error (as opposed to a panic) exactly for the empty point
  list.
\<close>

lemma render_error_iff_no_points:
  "(RenderFigureWithConfig r f cfg = Inl ErrNoPontos) = (Pontos f = [])"
proof (cases "Pontos f = []")
  case True
  then show ?thesis by (simp add: RenderFigureWithConfig_def)
next
  case False
  have "strokeLinhas ps ls ctx \<noteq> Inl ErrNoPontos" for ps ls ctx
    by (induction ps ls ctx rule: strokeLinhas.induct) (auto simp: Let_def)
  with False show ?thesis
    by (auto simp: RenderFigureWithConfig_def Let_def split: sum.splits)
qed

section \<open>Properties of the colour resolver\<close>

text \<open>
  On a string of ASCII bytes the three string functions work byte by byte:
  \<^verbatim>\<open>strings.ToLower\<close> maps the letters, \<^verbatim>\<open>strings.TrimSpace\<close> drops the space bytes
  at both ends, and the loop over the runes doubles every byte.
\<close>

lemma ToLower_ascii: "isASCII s \<Longrightarrow> ToLower lowerCase s = map toLowerByte s"
  by (simp add: ToLower_def)

lemma isASCII_toLower: "isASCII s \<Longrightarrow> isASCII (map toLowerByte s)"
  by (induction s) (auto simp: isASCII_def toLowerByte_def)

lemma trimSpaceStart_ascii: "isASCII s \<Longrightarrow> trimSpaceStart s = Inr (dropWhile isSpaceByte s)"
  by (induction s) (auto simp: isASCII_def)

lemma trimSpaceStop_ascii:
  "isASCII s \<Longrightarrow> n \<le> length s \<Longrightarrow>
     trimSpaceStop s n = rev (dropWhile isSpaceByte (rev (take n s)))"
proof (induction n)
  case 0
  then show ?case by simp
next
  case (Suc n)
  then have n: "n < length s" by simp
  with Suc.prems(1) have "byte (s ! n) < 128"
    by (simp add: isASCII_def list_all_length)
  with Suc n show ?case
    by (simp add: take_Suc_conv_app_nth)
qed

lemma isASCII_dropWhile: "isASCII s \<Longrightarrow> isASCII (dropWhile P s)"
  by (induction s) (auto simp: isASCII_def)

lemma TrimSpace_ascii:
  "isASCII s \<Longrightarrow> TrimSpace s = rev (dropWhile isSpaceByte (rev (dropWhile isSpaceByte s)))"
  by (simp add: TrimSpace_def trimSpaceStart_ascii trimSpaceStop_ascii isASCII_dropWhile)

lemma runes_ascii: "isASCII s \<Longrightarrow> runes s = map byte s"
  by (induction s) (auto simp: isASCII_def DecodeRuneInString_def)

lemma AppendRune_byte: "byte c < 128 \<Longrightarrow> AppendRune (byte c) = [c]"
  by (simp add: AppendRune_def)

lemma duplicateEach_ascii:
  assumes "isASCII v"
  shows "duplicateEach v = concat (map (\<lambda>ch. [ch, ch]) v)"
proof -
  have "concat (map (\<lambda>ch. AppendRune ch @ AppendRune ch) (map byte v))
      = concat (map (\<lambda>ch. [ch, ch]) v)" if "list_all (\<lambda>c. byte c < 128) v" for v
    using that by (induction v) (simp_all add: AppendRune_byte)
  with assms show ?thesis
    by (simp add: duplicateEach_def runes_ascii isASCII_def)
qed

lemmas color_eval = parseColor_def ToLower_ascii TrimSpace_ascii duplicateEach_ascii isASCII_def
  toLowerByte_def isSpaceByte_def namedColors_def HasPrefix_def parseHexComponent_def
  ParseUint_def digitValue_def lower_def Round_def Let_def char_of_eq_iff

lemma eq_char_of_iff: "(c = char_of (n::nat)) = (of_char c = take_bit 8 n)"
  using char_of_eq_iff [of n c] by auto

lemma hexDigit_facts_all:
  "list_all (\<lambda>c. digitValue (toLowerByte c) = Some (nibble c) \<and> nibble c < 16
      \<and> \<not> isSpaceByte (toLowerByte c) \<and> toLowerByte c \<noteq> CHR ''#''
      \<and> byte c < 128 \<and> byte (toLowerByte c) < 128)
     ''0123456789abcdefABCDEF''"
  by (simp add: digitValue_def toLowerByte_def nibble_def isSpaceByte_def lower_def
      char_of_eq_iff eq_char_of_iff)

lemma hexDigit_facts:
  assumes "isHexDigit c"
  shows "digitValue (toLowerByte c) = Some (nibble c)" "nibble c < 16"
    "\<not> isSpaceByte (toLowerByte c)" "toLowerByte c \<noteq> CHR ''#''"
    "byte c < 128" "byte (toLowerByte c) < 128"
  using assms hexDigit_facts_all unfolding isHexDigit_def list_all_iff by blast+

lemma parseHexComponent_digits:
  assumes "isHexDigit h" "isHexDigit l"
  shows "parseHexComponent [toLowerByte h, toLowerByte l]
     = (Round (real (byteValue [h, l]) / 255 * 1000) / 1000, None)"
proof -
  from hexDigit_facts(2) [OF assms(1)] hexDigit_facts(2) [OF assms(2)]
  have "\<not> nibble h * 16 + nibble l > 255" "\<not> nibble h > 255" by simp_all
  then show ?thesis
    by (simp add: parseHexComponent_def ParseUint_def hexDigit_facts(1) [OF assms(1)]
        hexDigit_facts(1) [OF assms(2)] byteValue_def Let_def mult.commute)
qed

lemma Round_roundtrip:
  "Round (Round (real n / 255 * 1000) / 1000 * 255) = real n"
proof -
  define k where "k = \<lfloor>real n / 255 * 1000 + 1 / 2\<rfloor>"
  have k1: "real_of_int k \<le> real n / 255 * 1000 + 1 / 2"
    and k2: "real n / 255 * 1000 + 1 / 2 < real_of_int k + 1"
    unfolding k_def by linarith+
  have "\<not> real n / 255 * 1000 < 0"
    by simp
  then have r1: "Round (real n / 255 * 1000) = real_of_int k"
    unfolding Round_def k_def by (rule if_not_P)
  have "0 \<le> k"
    unfolding k_def by simp
  then have "\<not> real_of_int k / 1000 * 255 < 0"
    by simp
  then have r2: "Round (real_of_int k / 1000 * 255)
      = real_of_int \<lfloor>real_of_int k / 1000 * 255 + 1 / 2\<rfloor>"
    unfolding Round_def by (rule if_not_P)
  have fl: "\<lfloor>real_of_int k / 1000 * 255 + 1 / 2\<rfloor> = int n"
    using k1 k2 by (intro floor_unique) (simp_all add: field_simps)
  show ?thesis
    unfolding r1 r2 fl by simp
qed

text \<open>
  The round trip does not rest on the arithmetic being exact. The scaled value
  \<open>n / 255 * 1000\<close> is never closer than \<open>1/102\<close> to a rounding boundary, so an error
  below \<open>1/102\<close> before the first rounding does not change its result, and an error of up
  to \<open>1/1000\<close> in the component does not change the byte that the second rounding gives
  back. The rounding errors of \<^verbatim>\<open>float64\<close> on these values are many orders of magnitude
  smaller.
\<close>

lemma Round_int:
  assumes "real_of_int q - 1 / 2 < x" and "x < real_of_int q + 1 / 2"
  shows "Round x = real_of_int q"
proof (cases "x < 0")
  case True
  with assms have "\<lfloor>- x + 1 / 2\<rfloor> = - q"
    by (intro floor_unique) simp_all
  with True show ?thesis by (simp add: Round_def)
next
  case False
  with assms have "\<lfloor>x + 1 / 2\<rfloor> = q"
    by (intro floor_unique) simp_all
  with False show ?thesis by (simp add: Round_def)
qed

lemma scaled_near_integer:
  fixes n :: nat
  shows "\<exists>q::int. real_of_int q - 1 / 2 + 1 / 102 \<le> real n / 255 * 1000
            \<and> real n / 255 * 1000 \<le> real_of_int q + 1 / 2 - 1 / 102"
proof -
  define m where "m = 400 * int n + 51"
  define q where "q = m div 102"
  define r where "r = m mod 102"
  have m: "m = 102 * q + r"
    by (simp add: q_def r_def)
  have "odd m" by (simp add: m_def)
  then have "odd r"
    unfolding r_def by presburger
  moreover have "0 \<le> r" "r < 102"
    by (simp_all add: r_def)
  ultimately have r: "1 \<le> r" "r \<le> 101"
    by presburger+
  have "real n / 255 * 1000 = real_of_int m / 102 - 1 / 2"
    by (simp add: m_def field_simps)
  also have "\<dots> = real_of_int q + real_of_int r / 102 - 1 / 2"
    by (simp add: m field_simps)
  finally have e: "real n / 255 * 1000 = real_of_int q + real_of_int r / 102 - 1 / 2" .
  from r have "1 \<le> real_of_int r" "real_of_int r \<le> 101"
    by linarith+
  with e show ?thesis
    by (intro exI [of _ q]) (simp add: field_simps)
qed

lemma Round_roundtrip_stable:
  assumes "\<bar>e1\<bar> < 1 / 102" and "\<bar>e2\<bar> \<le> 1 / 1000"
  shows "Round (real n / 255 * 1000 + e1) = Round (real n / 255 * 1000)"
    and "Round ((Round (real n / 255 * 1000 + e1) / 1000 + e2) * 255) = real n"
proof -
  from scaled_near_integer [of n] obtain q :: int where
    q: "real_of_int q - 1 / 2 + 1 / 102 \<le> real n / 255 * 1000"
       "real n / 255 * 1000 \<le> real_of_int q + 1 / 2 - 1 / 102"
    by blast
  have r0: "Round (real n / 255 * 1000) = real_of_int q"
    using q by (intro Round_int) linarith+
  have r1: "Round (real n / 255 * 1000 + e1) = real_of_int q"
    using q assms(1) by (intro Round_int) linarith+
  show "Round (real n / 255 * 1000 + e1) = Round (real n / 255 * 1000)"
    unfolding r0 r1 by (rule refl)
  have "real_of_int (int n) - 1 / 2 < (real_of_int q / 1000 + e2) * 255"
    "(real_of_int q / 1000 + e2) * 255 < real_of_int (int n) + 1 / 2"
    using q assms(2) by (simp_all add: field_simps)
  then have "Round ((real_of_int q / 1000 + e2) * 255) = real_of_int (int n)"
    by (rule Round_int)
  then show "Round ((Round (real n / 255 * 1000 + e1) / 1000 + e2) * 255) = real n"
    unfolding r1 by simp
qed

text \<open>
  C6. Every colour string \<open>#RRGGBB\<close> of six hexadecimal digits (of either case) is
  resolved without error, and each component of the result, scaled back to \<open>0..255\<close> and
  rounded, is within one of the byte that its two digits denote.
\<close>

theorem parseColor_hex_roundtrip:
  assumes len: "length ds = 6" and hex: "list_all isHexDigit ds"
  shows "\<exists>c. parseColor lc (CHR ''#'' # ds) = (c, None)
    \<and> \<bar>Round (R c * 255) - real (byteValue (take 2 ds))\<bar> \<le> 1
    \<and> \<bar>Round (G c * 255) - real (byteValue (take 2 (drop 2 ds)))\<bar> \<le> 1
    \<and> \<bar>Round (B c * 255) - real (byteValue (take 2 (drop 4 ds)))\<bar> \<le> 1"
proof -
  from len obtain d1 d2 d3 d4 d5 d6 where ds: "ds = [d1, d2, d3, d4, d5, d6]"
    by (auto simp: length_Suc_conv numeral_eq_Suc)
  with hex have h: "isHexDigit d1" "isHexDigit d2" "isHexDigit d3" "isHexDigit d4"
    "isHexDigit d5" "isHexDigit d6"
    by simp_all
  let ?v = "[CHR ''#'', toLowerByte d1, toLowerByte d2, toLowerByte d3, toLowerByte d4,
    toLowerByte d5, toLowerByte d6]"
  have "isASCII (CHR ''#'' # ds)"
    using h [THEN hexDigit_facts(5)] by (simp add: isASCII_def ds)
  then have tl: "ToLower lc (CHR ''#'' # ds) = ?v"
    by (simp add: ToLower_ascii toLowerByte_def ds)
  have "isASCII ?v"
    using h [THEN hexDigit_facts(6)] by (simp add: isASCII_def)
  then have tr: "TrimSpace ?v = ?v"
    using hexDigit_facts(3) [OF h(6)] by (simp add: TrimSpace_ascii isSpaceByte_def)
  have nn: "namedColors ?v = None"
    by (simp add: namedColors_def)
  let ?r = "Round (real (byteValue [d1, d2]) / 255 * 1000) / 1000"
  let ?g = "Round (real (byteValue [d3, d4]) / 255 * 1000) / 1000"
  let ?b = "Round (real (byteValue [d5, d6]) / 255 * 1000) / 1000"
  have "parseColor lc (CHR ''#'' # ds) = (\<lparr>R = ?r, G = ?g, B = ?b\<rparr>, None)"
    unfolding parseColor_def tl tr Let_def
    by (simp add: nn HasPrefix_def parseHexComponent_digits h)
  moreover have "Round (?r * 255) = real (byteValue [d1, d2])"
    "Round (?g * 255) = real (byteValue [d3, d4])"
    "Round (?b * 255) = real (byteValue [d5, d6])"
    by (rule Round_roundtrip)+
  ultimately show ?thesis
    by (simp add: ds)
qed

theorem parseColor_hex_roundtrip_witness:
  "parseColor id ''#FF8000'' = (\<lparr>R = 1, G = 0.502, B = 0\<rparr>, None)
   \<and> byteValue ''FF'' = 255 \<and> byteValue ''80'' = 128 \<and> byteValue ''00'' = 0
   \<and> Round (0.502 * 255) = 128"
proof -
  have "length ''FF8000'' = 6" "list_all isHexDigit ''FF8000''"
    by (simp_all add: isHexDigit_def)
  from parseColor_hex_roundtrip [OF this]
  have "\<exists>c. parseColor id ''#FF8000'' = (c, None)"
    by blast
  moreover have "parseColor id ''#FF8000'' = (\<lparr>R = 1, G = 0.502, B = 0\<rparr>, None)"
    by (simp add: color_eval)
  moreover have "byteValue ''FF'' = 255" "byteValue ''80'' = 128" "byteValue ''00'' = 0"
    by (simp_all add: byteValue_def nibble_def toLowerByte_def char_of_eq_iff eq_char_of_iff)
  moreover have "Round (0.502 * 255) = 128"
    by (simp add: Round_def)
  ultimately show ?thesis
    by simp
qed

lemma lower_eq: "lower n = (if odd (n div 32) then n else n + 32)"
proof -
  have "or n 32 = set_bit 5 n"
    by (simp add: set_bit_eq_or or.commute)
  also have "\<dots> = n + of_bool (\<not> bit n 5) * 2 ^ 5"
    by (rule set_bit_eq)
  finally show ?thesis
    by (simp add: lower_def bit_iff_odd)
qed

lemma digitValue_isHexDigit: "(digitValue c \<noteq> None) = isHexDigit c"
proof (cases c)
  case (Char b0 b1 b2 b3 b4 b5 b6 b7)
  then show ?thesis
    by (cases b0; cases b1; cases b2; cases b3; cases b4; cases b5; cases b6; cases b7;
        simp add: digitValue_def lower_eq isHexDigit_def)
qed

lemma digitValue_less: "digitValue c = Some d \<Longrightarrow> d < 16"
  by (auto simp: digitValue_def Let_def split: if_splits)

lemma parseHexComponent_pair:
  "(snd (parseHexComponent [a, b]) = None) = (isHexDigit a \<and> isHexDigit b)"
proof (cases "digitValue a")
  case None
  then show ?thesis
    using digitValue_isHexDigit [of a]
    by (simp add: parseHexComponent_def ParseUint_def)
next
  case (Some x)
  note a = this
  then have x: "x < 16" by (rule digitValue_less)
  show ?thesis
  proof (cases "digitValue b")
    case None
    then show ?thesis
      using digitValue_isHexDigit [of b] a x
      by (simp add: parseHexComponent_def ParseUint_def)
  next
    case (Some y)
    then have "y < 16" by (rule digitValue_less)
    with x have "\<not> x * 16 + y > 255" by simp
    with Some a x show ?thesis
      using digitValue_isHexDigit [of b] digitValue_isHexDigit [of a]
      by (simp add: parseHexComponent_def ParseUint_def)
  qed
qed

text \<open>
  The slice expressions of \<^verbatim>\<open>parseColor\<close> stay within bounds: \<^verbatim>\<open>v[1:]\<close> is taken
  when \<^verbatim>\<open>v\<close> has the prefix \<open>#\<close>, and \<^verbatim>\<open>v[0:2]\<close>, \<^verbatim>\<open>v[2:4]\<close>, \<^verbatim>\<open>v[4:6]\<close> when
  its length is six, so none of them can panic and \<open>take\<close> and \<open>drop\<close> give their
  values.
\<close>

lemma parseColor_slices_in_bounds:
  "HasPrefix v ''#'' \<Longrightarrow> 1 \<le> length v"
  "length v = 6 \<Longrightarrow> 2 \<le> length v \<and> 4 \<le> length v \<and> 6 \<le> length v"
  by (simp_all add: HasPrefix_def)

text \<open>
  White space and case outside ASCII are handled as well: a no-break space (\<open>U+00A0\<close>,
  the bytes \<open>0xC2 0xA0\<close>) before the colour is trimmed, for every case table that leaves
  that rune alone.
\<close>

lemma parseColor_no_break_space:
  assumes "lc 160 = 160"
  shows "parseColor lc ([CHR 0xC2, CHR 0xA0] @ ''#FF0000 '') = (\<lparr>R = 1, G = 0, B = 0\<rparr>, None)"
proof -
  have "TrimSpace (ToLower lc ([CHR 0xC2, CHR 0xA0] @ ''#FF0000 '')) = ''#ff0000''"
    using assms
    by (simp add: ToLower_def isASCII_def Map_def DecodeRuneInString_def unicode_ToLower_def
        AppendRune_def TrimSpace_def TrimFunc_def TrimRightFunc_def IsSpace_def Let_def
        DecodeLastRuneInString_def isSpaceByte_def char_of_eq_iff)
  then show ?thesis
    by (simp add: parseColor_def namedColors_def HasPrefix_def parseHexComponent_def
        ParseUint_def digitValue_def lower_def Round_def Let_def)
qed

text \<open>
  C7. \<^verbatim>\<open>parseColor\<close> trims and lowercases its input. When the result is not one of
  the colour names, the input is read as hexadecimal: one leading \<open>#\<close> is stripped and
  every character of a three-character form is doubled (\<open>hexForm\<close>; \<open>f0a\<close> becomes
  \<open>ff00aa\<close>). The call returns an error, together with the zero colour and never with a
  partly parsed one, for the empty string, for every form whose length after the expansion
  is not six, and for every form with a character that is not a hexadecimal digit; a
  form of six hexadecimal digits gives the three components of its digit pairs.
\<close>

theorem parseColor_hex_form:
  assumes "namedColors (TrimSpace (ToLower lc value)) = None"
  shows "(TrimSpace (ToLower lc value) = [] \<longrightarrow>
           parseColor lc value = (zeroColor, Some ErrEmptyValue))
    \<and> (length (hexForm lc value) \<noteq> 6 \<longrightarrow>
           fst (parseColor lc value) = zeroColor \<and> snd (parseColor lc value) \<noteq> None)
    \<and> (\<not> list_all isHexDigit (hexForm lc value) \<longrightarrow>
           fst (parseColor lc value) = zeroColor \<and> snd (parseColor lc value) \<noteq> None)
    \<and> (length (hexForm lc value) = 6 \<and> list_all isHexDigit (hexForm lc value) \<longrightarrow>
           parseColor lc value =
             (\<lparr>R = fst (parseHexComponent (take 2 (hexForm lc value))),
               G = fst (parseHexComponent (take 2 (drop 2 (hexForm lc value)))),
               B = fst (parseHexComponent (take 2 (drop 4 (hexForm lc value))))\<rparr>, None))"
proof -
  define h where "h = hexForm lc value"
  have unfold: "parseColor lc value =
      (if TrimSpace (ToLower lc value) = [] then (zeroColor, Some ErrEmptyValue)
       else if length h \<noteq> 6 then (zeroColor, Some (ErrInvalidFormat value))
       else (case parseHexComponent (take 2 h) of
               (r, Some err) \<Rightarrow> (zeroColor, Some err)
             | (r, None) \<Rightarrow>
                 (case parseHexComponent (take 2 (drop 2 h)) of
                    (g, Some err) \<Rightarrow> (zeroColor, Some err)
                  | (g, None) \<Rightarrow>
                      (case parseHexComponent (take 2 (drop 4 h)) of
                         (b, Some err) \<Rightarrow> (zeroColor, Some err)
                       | (b, None) \<Rightarrow> (\<lparr>R = r, G = g, B = b\<rparr>, None)))))"
    using assms by (simp add: parseColor_def hexForm_def h_def Let_def)
  have empty: "h = []" if "TrimSpace (ToLower lc value) = []"
    using that by (simp add: h_def hexForm_def HasPrefix_def)
  show ?thesis
  proof (cases "TrimSpace (ToLower lc value) = []")
    case True
    with empty unfold show ?thesis
      unfolding h_def [symmetric] by simp
  next
    case nonempty: False
    show ?thesis
    proof (cases "length h = 6")
      case False
      with nonempty unfold show ?thesis
        unfolding h_def [symmetric] by simp
    next
      case True
      then obtain a b c d e f where h: "h = [a, b, c, d, e, f]"
        by (auto simp: length_Suc_conv numeral_eq_Suc)
      from parseHexComponent_pair [of a b] parseHexComponent_pair [of c d]
        parseHexComponent_pair [of e f]
      show ?thesis
        unfolding h_def [symmetric] unfold
        by (simp add: h nonempty split: prod.splits option.splits) auto
    qed
  qed
qed

theorem parseColor_hex_form_witness:
  "parseColor id [] = (zeroColor, Some ErrEmptyValue)
   \<and> parseColor id ''#12345'' = (zeroColor, Some (ErrInvalidFormat ''#12345''))
   \<and> parseColor id ''#xyz'' = (zeroColor, Some (ErrSyntax ''xx''))
   \<and> hexForm id ''  #F0A '' = ''ff00aa''
   \<and> parseColor id ''  #F0A '' = (\<lparr>R = 1, G = 0, B = 0.667\<rparr>, None)
   \<and> parseColor id ''ff00aa'' = (\<lparr>R = 1, G = 0, B = 0.667\<rparr>, None)"
proof -
  have n: "namedColors (TrimSpace (ToLower id [])) = None"
    "namedColors (TrimSpace (ToLower id ''#12345'')) = None"
    "namedColors (TrimSpace (ToLower id ''#xyz'')) = None"
    "namedColors (TrimSpace (ToLower id ''  #F0A '')) = None"
    by (simp_all add: color_eval)
  have t: "TrimSpace (ToLower id []) = []"
    by (simp add: color_eval)
  have h: "hexForm id ''#12345'' = ''12345''" "hexForm id ''#xyz'' = ''xxyyzz''"
    "hexForm id ''  #F0A '' = ''ff00aa''"
    by (simp_all add: hexForm_def color_eval)
  have e1: "parseColor id [] = (zeroColor, Some ErrEmptyValue)"
    using parseColor_hex_form [OF n(1)] t by simp
  have e2: "fst (parseColor id ''#12345'') = zeroColor \<and> snd (parseColor id ''#12345'') \<noteq> None"
    using parseColor_hex_form [OF n(2)] h(1) by simp
  have e3: "fst (parseColor id ''#xyz'') = zeroColor \<and> snd (parseColor id ''#xyz'') \<noteq> None"
    using parseColor_hex_form [OF n(3)] h(2) by (simp add: isHexDigit_def)
  have e4: "snd (parseColor id ''  #F0A '') = None"
    using parseColor_hex_form [OF n(4)] h(3) by (simp add: isHexDigit_def)
  have "parseColor id ''#12345'' = (zeroColor, Some (ErrInvalidFormat ''#12345''))"
    "parseColor id ''#xyz'' = (zeroColor, Some (ErrSyntax ''xx''))"
    "parseColor id ''  #F0A '' = (\<lparr>R = 1, G = 0, B = 0.667\<rparr>, None)"
    "parseColor id ''ff00aa'' = (\<lparr>R = 1, G = 0, B = 0.667\<rparr>, None)"
    by (simp_all add: color_eval zeroColor_def)
  with e1 e2 e3 e4 h(3) show ?thesis
    by simp
qed

text \<open>
  C10. The table of names is consulted before the leading \<open>#\<close> is stripped: every name
  \<open>n\<close> of the table resolves to its triple, and \<open>#n\<close> is not resolved as a name but
  rejected as a malformed colour.
\<close>

theorem parseColor_named_before_hash:
  assumes "namedColors n = Some col"
  shows "parseColor lc n = (col, None)
    \<and> parseColor lc (CHR ''#'' # n) = (zeroColor, Some (ErrInvalidFormat (CHR ''#'' # n)))"
proof -
  let ?table = "[(''white'', \<lparr>R = 1, G = 1, B = 1\<rparr>),
        (''black'', \<lparr>R = 0, G = 0, B = 0\<rparr>),
        (''gray'', \<lparr>R = 0.5, G = 0.5, B = 0.5\<rparr>),
        (''grey'', \<lparr>R = 0.5, G = 0.5, B = 0.5\<rparr>),
        (''lightgray'', \<lparr>R = 0.82, G = 0.82, B = 0.82\<rparr>),
        (''lightgrey'', \<lparr>R = 0.82, G = 0.82, B = 0.82\<rparr>),
        (''darkgray'', \<lparr>R = 0.25, G = 0.25, B = 0.25\<rparr>),
        (''darkgrey'', \<lparr>R = 0.25, G = 0.25, B = 0.25\<rparr>)]"
  have "list_all (\<lambda>(n, col). parseColor lc n = (col, None)
      \<and> parseColor lc (CHR ''#'' # n) = (zeroColor, Some (ErrInvalidFormat (CHR ''#'' # n)))) ?table"
    by (simp add: color_eval)
  moreover from assms have "(n, col) \<in> set ?table"
    unfolding namedColors_def by (rule map_of_SomeD)
  ultimately show ?thesis
    unfolding list_all_iff by blast
qed

theorem parseColor_named_before_hash_witness:
  "namedColors ''lightgrey'' = Some \<lparr>R = 0.82, G = 0.82, B = 0.82\<rparr>
   \<and> parseColor id ''lightgrey'' = (\<lparr>R = 0.82, G = 0.82, B = 0.82\<rparr>, None)
   \<and> parseColor id ''#lightgrey'' = (zeroColor, Some (ErrInvalidFormat ''#lightgrey''))"
proof -
  have n: "namedColors ''lightgrey'' = Some \<lparr>R = 0.82, G = 0.82, B = 0.82\<rparr>"
    by (simp add: namedColors_def)
  from parseColor_named_before_hash [OF n] n show ?thesis
    by simp
qed

text \<open>
  C5. \<^verbatim>\<open>ConfigFromFigure\<close> returns the defaults (white background, black lines, line
  width \<open>1.0\<close>, dark-red vertices, no vertices, no labels) for a \<^verbatim>\<open>nil\<close> figure and for
  a figure without render settings. With settings, a line width that is not positive
  leaves the default line width, and when the call succeeds the line width is the supplied
  one exactly when that is positive, and each of the two flags is the default \<open>False\<close> for
  a \<^verbatim>\<open>nil\<close> pointer and the pointed-to value otherwise.
\<close>

theorem ConfigFromFigure_overrides:
  "ConfigFromFigure lc None = (DefaultRenderConfig, None)
   \<and> (Render figure = None \<longrightarrow> ConfigFromFigure lc (Some figure) = (DefaultRenderConfig, None))
   \<and> DefaultRenderConfig =
       \<lparr>RenderConfig.Background = \<lparr>R = 1, G = 1, B = 1\<rparr>,
        RenderConfig.LineColor = \<lparr>R = 0, G = 0, B = 0\<rparr>,
        RenderConfig.LineWidth = 1,
        RenderConfig.VertexColor = \<lparr>R = 0.8, G = 0, B = 0\<rparr>,
        RenderConfig.ShowVertices = False,
        RenderConfig.ShowLabels = False\<rparr>
   \<and> (Render figure = Some settings \<longrightarrow>
        (RenderSettings.LineWidth settings \<le> 0 \<longrightarrow>
           RenderConfig.LineWidth (fst (ConfigFromFigure lc (Some figure))) = 1)
      \<and> (snd (ConfigFromFigure lc (Some figure)) = None \<longrightarrow>
           RenderConfig.LineWidth (fst (ConfigFromFigure lc (Some figure)))
             = (if RenderSettings.LineWidth settings > 0
                then RenderSettings.LineWidth settings else 1)
         \<and> RenderConfig.ShowVertices (fst (ConfigFromFigure lc (Some figure)))
             = (case RenderSettings.ShowVertices settings of None \<Rightarrow> False | Some b \<Rightarrow> b)
         \<and> RenderConfig.ShowLabels (fst (ConfigFromFigure lc (Some figure)))
             = (case RenderSettings.ShowLabels settings of None \<Rightarrow> False | Some b \<Rightarrow> b)))"
  by (auto simp: ConfigFromFigure_def DefaultRenderConfig_def Let_def
      split: option.splits prod.splits if_splits)

theorem ConfigFromFigure_overrides_witness:
  "ConfigFromFigure id (Some withSettings) =
       (\<lparr>RenderConfig.Background = \<lparr>R = 0, G = 0, B = 0\<rparr>,
        RenderConfig.LineColor = \<lparr>R = 1, G = 0, B = 0\<rparr>,
        RenderConfig.LineWidth = 2.5,
        RenderConfig.VertexColor = \<lparr>R = 0, G = 0, B = 1\<rparr>,
        RenderConfig.ShowVertices = True,
        RenderConfig.ShowLabels = False\<rparr>, None)
   \<and> ConfigFromFigure id (Some simpleLine) = (DefaultRenderConfig, None)
   \<and> RenderConfig.LineWidth (fst (ConfigFromFigure id (Some withSettings))) = 2.5
   \<and> RenderConfig.ShowVertices (fst (ConfigFromFigure id (Some withSettings))) = True
   \<and> RenderConfig.ShowLabels (fst (ConfigFromFigure id (Some withSettings))) = False"
proof -
  have "parseColor id ''black'' = (\<lparr>R = 0, G = 0, B = 0\<rparr>, None)"
    "parseColor id ''#ff0000'' = (\<lparr>R = 1, G = 0, B = 0\<rparr>, None)"
    "parseColor id ''#0000ff'' = (\<lparr>R = 0, G = 0, B = 1\<rparr>, None)"
    by (simp_all add: color_eval)
  then have c: "ConfigFromFigure id (Some withSettings) =
       (\<lparr>RenderConfig.Background = \<lparr>R = 0, G = 0, B = 0\<rparr>,
        RenderConfig.LineColor = \<lparr>R = 1, G = 0, B = 0\<rparr>,
        RenderConfig.LineWidth = 2.5,
        RenderConfig.VertexColor = \<lparr>R = 0, G = 0, B = 1\<rparr>,
        RenderConfig.ShowVertices = True,
        RenderConfig.ShowLabels = False\<rparr>, None)"
    by (simp add: ConfigFromFigure_def withSettings_def DefaultRenderConfig_def)
  have s: "Render withSettings = Some
        \<lparr>CanvasWidth = 0, CanvasHeight = 0,
         RenderSettings.Background = ''black'',
         RenderSettings.LineColor = ''#ff0000'',
         RenderSettings.VertexColor = ''#0000ff'',
         RenderSettings.LineWidth = 2.5,
         RenderSettings.ShowVertices = Some True,
         RenderSettings.ShowLabels = Some False\<rparr>"
    by (simp add: withSettings_def)
  have n: "Render simpleLine = None"
    by (simp add: simpleLine_def)
  have ok: "snd (ConfigFromFigure id (Some withSettings)) = None"
    by (simp add: c)
  from ConfigFromFigure_overrides [of id simpleLine] n
  have "ConfigFromFigure id (Some simpleLine) = (DefaultRenderConfig, None)"
    by blast
  moreover from ConfigFromFigure_overrides [of id withSettings
        "\<lparr>CanvasWidth = 0, CanvasHeight = 0,
         RenderSettings.Background = ''black'',
         RenderSettings.LineColor = ''#ff0000'',
         RenderSettings.VertexColor = ''#0000ff'',
         RenderSettings.LineWidth = 2.5,
         RenderSettings.ShowVertices = Some True,
         RenderSettings.ShowLabels = Some False\<rparr>"] s ok
  have "RenderConfig.LineWidth (fst (ConfigFromFigure id (Some withSettings))) = 2.5
   \<and> RenderConfig.ShowVertices (fst (ConfigFromFigure id (Some withSettings))) = True
   \<and> RenderConfig.ShowLabels (fst (ConfigFromFigure id (Some withSettings))) = False"
    by simp
  ultimately show ?thesis
    using c by simp
qed

end
